theory Spec2Isabelle
  imports Main "HOL-Library.Sublist"
begin

section \<open>Python strings\<close>

text \<open>
  A Python \<open>str\<close> is a sequence of Unicode code points. The templates and the literals of
  \<open>main.py\<close> are Cyrillic, and \<open>str.isdigit\<close>, \<open>str.split\<close> and \<open>str.strip\<close> classify
  code points by Unicode properties, so a character is modelled as its code point and a
  string as the list of its code points. The tables below are those of Unicode 14.0.0
  (CPython 3.11).
\<close>

type_synonym pychar = nat
type_synonym pystr = "pychar list"

definition in_ranges :: "(nat \<times> nat) list \<Rightarrow> nat \<Rightarrow> bool" where
  "in_ranges rs c = list_ex (\<lambda>r. fst r \<le> c \<and> c \<le> snd r) rs"

text \<open>\<open>str.isdigit\<close>: code points with Numeric_Type Digit or Decimal, as inclusive ranges.\<close>

definition digit_ranges :: "(nat \<times> nat) list" where
  "digit_ranges = [
    (48, 57), (178, 179), (185, 185), (1632, 1641), (1776, 1785), (1984, 1993),
    (2406, 2415), (2534, 2543), (2662, 2671), (2790, 2799), (2918, 2927), (3046, 3055),
    (3174, 3183), (3302, 3311), (3430, 3439), (3558, 3567), (3664, 3673), (3792, 3801),
    (3872, 3881), (4160, 4169), (4240, 4249), (4969, 4977), (6112, 6121), (6160, 6169),
    (6470, 6479), (6608, 6618), (6784, 6793), (6800, 6809), (6992, 7001), (7088, 7097),
    (7232, 7241), (7248, 7257), (8304, 8304), (8308, 8313), (8320, 8329), (9312, 9320),
    (9332, 9340), (9352, 9360), (9450, 9450), (9461, 9469), (9471, 9471), (10102, 10110),
    (10112, 10120), (10122, 10130), (42528, 42537), (43216, 43225), (43264, 43273),
    (43472, 43481), (43504, 43513), (43600, 43609), (44016, 44025), (65296, 65305),
    (66720, 66729), (68160, 68163), (68912, 68921), (69216, 69224), (69714, 69722),
    (69734, 69743), (69872, 69881), (69942, 69951), (70096, 70105), (70384, 70393),
    (70736, 70745), (70864, 70873), (71248, 71257), (71360, 71369), (71472, 71481),
    (71904, 71913), (72016, 72025), (72784, 72793), (73040, 73049), (73120, 73129),
    (92768, 92777), (92864, 92873), (93008, 93017), (120782, 120831), (123200, 123209),
    (123632, 123641), (125264, 125273), (127232, 127242), (130032, 130041)]"

definition py_isdigit :: "pychar \<Rightarrow> bool" where
  "py_isdigit c = in_ranges digit_ranges c"

text \<open>\<open>str.isdecimal\<close>: code points of general category Nd (decimal digits of any script).\<close>

definition decimal_ranges :: "(nat \<times> nat) list" where
  "decimal_ranges = [
    (48, 57), (1632, 1641), (1776, 1785), (1984, 1993), (2406, 2415), (2534, 2543),
    (2662, 2671), (2790, 2799), (2918, 2927), (3046, 3055), (3174, 3183), (3302, 3311),
    (3430, 3439), (3558, 3567), (3664, 3673), (3792, 3801), (3872, 3881), (4160, 4169),
    (4240, 4249), (6112, 6121), (6160, 6169), (6470, 6479), (6608, 6617), (6784, 6793),
    (6800, 6809), (6992, 7001), (7088, 7097), (7232, 7241), (7248, 7257), (42528, 42537),
    (43216, 43225), (43264, 43273), (43472, 43481), (43504, 43513), (43600, 43609),
    (44016, 44025), (65296, 65305), (66720, 66729), (68912, 68921), (69734, 69743),
    (69872, 69881), (69942, 69951), (70096, 70105), (70384, 70393), (70736, 70745),
    (70864, 70873), (71248, 71257), (71360, 71369), (71472, 71481), (71904, 71913),
    (72016, 72025), (72784, 72793), (73040, 73049), (73120, 73129), (92768, 92777),
    (92864, 92873), (93008, 93017), (120782, 120831), (123200, 123209), (123632, 123641),
    (125264, 125273), (130032, 130041)]"

definition py_isdecimal :: "pychar \<Rightarrow> bool" where
  "py_isdecimal c = in_ranges decimal_ranges c"

text \<open>\<open>str.isspace\<close>, which is also the separator set of \<open>str.split()\<close> and \<open>str.strip()\<close>.\<close>

definition space_ranges :: "(nat \<times> nat) list" where
  "space_ranges = [(9, 13), (28, 32), (133, 133), (160, 160), (5760, 5760), (8192, 8202),
    (8232, 8233), (8239, 8239), (8287, 8287), (12288, 12288)]"

definition py_isspace :: "pychar \<Rightarrow> bool" where
  "py_isspace c = in_ranges space_ranges c"

text \<open>\<open>str.split()\<close> with no argument: the maximal runs of non-whitespace characters.
  \<open>cur\<close> is the token being read, reversed.\<close>

fun split_acc :: "pystr \<Rightarrow> pystr \<Rightarrow> pystr list" where
  "split_acc cur [] = (if cur = [] then [] else [rev cur])"
| "split_acc cur (c # cs) =
     (if py_isspace c
      then (if cur = [] then split_acc [] cs else rev cur # split_acc [] cs)
      else split_acc (c # cur) cs)"

definition py_split :: "pystr \<Rightarrow> pystr list" where
  "py_split s = split_acc [] s"

text \<open>\<open>str.strip()\<close> with no argument.\<close>

definition py_strip :: "pystr \<Rightarrow> pystr" where
  "py_strip s = rev (dropWhile py_isspace (rev (dropWhile py_isspace s)))"

text \<open>\<open>str.replace(old, new)\<close>: every non-overlapping occurrence of \<open>old\<close>, leftmost first.
  With an empty \<open>old\<close>, Python inserts \<open>new\<close> before every character and at the end.\<close>

function py_replace :: "pystr \<Rightarrow> pystr \<Rightarrow> pystr \<Rightarrow> pystr" where
  "py_replace old new [] = (if old = [] then new else [])"
| "py_replace old new (c # cs) =
     (if old = [] then new @ c # py_replace old new cs
      else if prefix old (c # cs) then new @ py_replace old new (drop (length old) (c # cs))
      else c # py_replace old new cs)"
  by pat_completeness auto
termination
  by (relation "measure (\<lambda>(old, new, s). length s)") auto

section \<open>The apartment list normalizer\<close>

text \<open>
  \<^verbatim>\<open>
  def parse_apartments(text):
      parts = []
      for token in text.replace(",", " ").split():
          token = token.strip()
          if token == "":
              continue
          num = "".join(ch for ch in token if ch.isdigit())
          if num:
              parts.append(num)
      seen = set()
      uniq = []
      for p in parts:
          if p not in seen:
              seen.add(p)
              uniq.append(p)
      return uniq
  \<close>
\<close>

fun collect_parts :: "pystr list \<Rightarrow> pystr list \<Rightarrow> pystr list" where
  "collect_parts parts [] = parts"
| "collect_parts parts (token # tokens) =
     (let token' = py_strip token in
      if token' = [] then collect_parts parts tokens
      else let num = filter py_isdigit token' in
           if num \<noteq> [] then collect_parts (parts @ [num]) tokens
           else collect_parts parts tokens)"

fun uniq_loop :: "pystr set \<Rightarrow> pystr list \<Rightarrow> pystr list \<Rightarrow> pystr list" where
  "uniq_loop seen uniq [] = uniq"
| "uniq_loop seen uniq (p # ps) =
     (if p \<notin> seen then uniq_loop (insert p seen) (uniq @ [p]) ps
      else uniq_loop seen uniq ps)"

definition parse_apartments :: "pystr \<Rightarrow> pystr list" where
  "parse_apartments text =
     (let parts = collect_parts [] (py_split (py_replace [44] [32] text))
      in uniq_loop {} [] parts)"

text \<open>
  The normalizer as the specification words it: the text is cut into the maximal runs of
  characters that are neither a comma nor whitespace (\<open>split_on\<close>), each token keeps the
  characters selected by \<open>keep\<close>, tokens left empty are dropped, and of equal identifiers
  only the first occurrence stays (\<open>dedup_first\<close>).
\<close>

function split_on :: "('a \<Rightarrow> bool) \<Rightarrow> 'a list \<Rightarrow> 'a list list" where
  "split_on sep s =
     (case dropWhile sep s of
        [] \<Rightarrow> []
      | x # xs \<Rightarrow> takeWhile (\<lambda>c. \<not> sep c) (x # xs) # split_on sep (dropWhile (\<lambda>c. \<not> sep c) xs))"
  by pat_completeness auto
termination
proof (relation "measure (\<lambda>(sep, s). length s)", goal_cases)
  case 1 show ?case by simp
next
  case (2 sep s x xs)
  have "length (dropWhile (\<lambda>c. \<not> sep c) xs) \<le> length xs"
    by (rule length_dropWhile_le)
  moreover have "length (x # xs) \<le> length s"
    using 2 length_dropWhile_le[of sep s] by simp
  ultimately show ?case by simp
qed

declare split_on.simps [simp del]

function dedup_first :: "'a list \<Rightarrow> 'a list" where
  "dedup_first [] = []"
| "dedup_first (x # xs) = x # dedup_first (filter (\<lambda>y. y \<noteq> x) xs)"
  by pat_completeness auto
termination
  by (relation "measure length") (auto simp: less_Suc_eq_le)

definition is_sep :: "pychar \<Rightarrow> bool" where
  "is_sep c = (c = 44 \<or> py_isspace c)"

definition normalize_by :: "(pychar \<Rightarrow> bool) \<Rightarrow> pystr \<Rightarrow> pystr list" where
  "normalize_by keep text =
     dedup_first (filter (\<lambda>n. n \<noteq> []) (map (filter keep) (split_on is_sep text)))"

section \<open>Dates, times of day and the random source\<close>

text \<open>The exceptions of Python that the modelled code can raise.\<close>

datatype py_error = ValueError | OverflowError | AttributeError | FileNotFoundError | OSError

text \<open>
  \<open>datetime.date\<close>: a year, a month and a day of the proleptic Gregorian calendar. The
  constructor accepts exactly the triples of \<open>valid_date\<close> (years 1 to 9999). Its
  arithmetic goes through the ordinal of a date (\<open>date.toordinal\<close>, day 1 is 0001-01-01):
  \<open>d2 - d1\<close> is the difference of the ordinals, and \<open>d + timedelta(days=k)\<close> is the date
  \<open>k\<close> days after \<open>d\<close> (before, when \<open>k\<close> is negative), an \<open>OverflowError\<close> outside the
  years 1 to 9999. Dates compare as the triples (year, month, day).
\<close>

record date =
  year :: int
  month :: int
  day :: int

definition is_leap :: "int \<Rightarrow> bool" where
  "is_leap y = (y mod 4 = 0 \<and> (y mod 100 \<noteq> 0 \<or> y mod 400 = 0))"

definition days_in_month :: "int \<Rightarrow> int \<Rightarrow> int" where
  "days_in_month y m =
     (if m = 2 then (if is_leap y then 29 else 28)
      else if m = 4 \<or> m = 6 \<or> m = 9 \<or> m = 11 then 30 else 31)"

definition days_before_year :: "int \<Rightarrow> int" where
  "days_before_year y = (y - 1) * 365 + (y - 1) div 4 - (y - 1) div 100 + (y - 1) div 400"

definition days_before_month :: "int \<Rightarrow> int \<Rightarrow> int" where
  "days_before_month y m =
     [0, 31, 59, 90, 120, 151, 181, 212, 243, 273, 304, 334] ! nat (m - 1)
     + (if 2 < m \<and> is_leap y then 1 else 0)"

definition toordinal :: "date \<Rightarrow> int" where
  "toordinal d = days_before_year (year d) + days_before_month (year d) (month d) + day d"

definition valid_date :: "date \<Rightarrow> bool" where
  "valid_date d =
     (1 \<le> year d \<and> year d \<le> 9999 \<and> 1 \<le> month d \<and> month d \<le> 12
      \<and> 1 \<le> day d \<and> day d \<le> days_in_month (year d) (month d))"

definition next_day :: "date \<Rightarrow> date" where
  "next_day d =
     (if day d < days_in_month (year d) (month d) then d\<lparr>day := day d + 1\<rparr>
      else if month d < 12 then d\<lparr>month := month d + 1, day := 1\<rparr>
      else d\<lparr>year := year d + 1, month := 1, day := 1\<rparr>)"

definition prev_day :: "date \<Rightarrow> date" where
  "prev_day d =
     (if 1 < day d then d\<lparr>day := day d - 1\<rparr>
      else if 1 < month d
        then d\<lparr>month := month d - 1, day := days_in_month (year d) (month d - 1)\<rparr>
      else d\<lparr>year := year d - 1, month := 12, day := 31\<rparr>)"


text \<open>\<open>date.max.toordinal()\<close>, the ordinal of 9999-12-31.\<close>

definition max_ordinal :: int where
  "max_ordinal = 3652059"

definition date_add_days :: "date \<Rightarrow> int \<Rightarrow> py_error + date" where
  "date_add_days d k =
     (let n = toordinal d + k in
      if n < 1 \<or> max_ordinal < n then Inl OverflowError
      else if 0 \<le> k then Inr ((next_day ^^ nat k) d)
      else Inr ((prev_day ^^ nat (- k)) d))"

definition date_sub_days :: "date \<Rightarrow> date \<Rightarrow> int" where
  "date_sub_days a b = toordinal a - toordinal b"


text \<open>\<open>datetime.time\<close>, without the microsecond, which the program never sets or reads.\<close>

record time =
  hour :: int
  minute :: int
  second :: int

definition valid_time :: "time \<Rightarrow> bool" where
  "valid_time t =
     (0 \<le> hour t \<and> hour t < 24 \<and> 0 \<le> minute t \<and> minute t < 60
      \<and> 0 \<le> second t \<and> second t < 60)"

text \<open>\<open>datetime.datetime\<close>: a date and a time of day. \<open>datetime(y, m, d, h, mi)\<close> raises
  \<open>ValueError\<close> on a field out of range and sets the second to 0.\<close>

record datetime =
  date_part :: date
  time_part :: time

definition mk_datetime :: "int \<Rightarrow> int \<Rightarrow> int \<Rightarrow> int \<Rightarrow> int \<Rightarrow> py_error + datetime" where
  "mk_datetime y m d h mi =
     (if valid_date \<lparr>year = y, month = m, day = d\<rparr> \<and> 0 \<le> h \<and> h < 24 \<and> 0 \<le> mi \<and> mi < 60
      then Inr \<lparr>date_part = \<lparr>year = y, month = m, day = d\<rparr>,
                time_part = \<lparr>hour = h, minute = mi, second = 0\<rparr>\<rparr>
      else Inl ValueError)"

text \<open>
  The state of the module \<open>random\<close> is an infinite sequence of raw draws, of which each
  call consumes the first. \<open>random.randint(a, b)\<close> raises \<open>ValueError\<close> on an empty range
  and otherwise returns a number of \<open>a..b\<close>; every number of the range is returned for
  some raw draw.
\<close>

type_synonym rng = "nat \<Rightarrow> nat"

definition randint :: "int \<Rightarrow> int \<Rightarrow> rng \<Rightarrow> (py_error + int) \<times> rng" where
  "randint a b g =
     (if b < a then (Inl ValueError, g)
      else (Inr (a + int (g 0) mod (b - a + 1)), \<lambda>i. g (Suc i)))"

text \<open>
  \<^verbatim>\<open>
  def random_datetime_between(start_date, end_date, start_time, end_time):
      days_delta = (end_date - start_date).days
      rand_day = random.randint(0, max(0, days_delta))
      chosen_date = start_date + timedelta(days=rand_day)
      st_seconds = start_time.hour * 3600 + start_time.minute * 60 + start_time.second
      en_seconds = end_time.hour * 3600 + end_time.minute * 60 + end_time.second
      if en_seconds < st_seconds:
          en_seconds = st_seconds
      rand_seconds = random.randint(st_seconds, en_seconds)
      hours = rand_seconds // 3600
      mins = (rand_seconds % 3600) // 60
      return datetime(chosen_date.year, chosen_date.month, chosen_date.day, hours, mins)
  \<close>
\<close>

definition seconds_of :: "time \<Rightarrow> int" where
  "seconds_of t = hour t * 3600 + minute t * 60 + second t"

definition random_datetime_between ::
  "date \<Rightarrow> date \<Rightarrow> time \<Rightarrow> time \<Rightarrow> rng \<Rightarrow> (py_error + datetime) \<times> rng" where
  "random_datetime_between start_date end_date start_time end_time g =
     (let days_delta = date_sub_days end_date start_date in
      case randint 0 (max 0 days_delta) g of
        (Inl e, g1) \<Rightarrow> (Inl e, g1)
      | (Inr rand_day, g1) \<Rightarrow>
          (case date_add_days start_date rand_day of
             Inl e \<Rightarrow> (Inl e, g1)
           | Inr chosen_date \<Rightarrow>
               (let st_seconds = seconds_of start_time;
                    en_seconds = seconds_of end_time;
                    en_seconds = (if en_seconds < st_seconds then st_seconds else en_seconds)
                in case randint st_seconds en_seconds g1 of
                     (Inl e, g2) \<Rightarrow> (Inl e, g2)
                   | (Inr rand_seconds, g2) \<Rightarrow>
                       (let hours = rand_seconds div 3600;
                            mins = (rand_seconds mod 3600) div 60
                        in (mk_datetime (year chosen_date) (month chosen_date)
                              (day chosen_date) hours mins, g2)))))"


section \<open>Rendering a notification\<close>

text \<open>
  \<open>datetime.strftime\<close>, for the directives the program uses: \<open>%d\<close>, \<open>%m\<close>, \<open>%H\<close>, \<open>%M\<close>
  and \<open>%S\<close> are decimal numbers padded with zeros to two digits, \<open>%Y\<close> is the year padded
  to four digits (as on Windows, the platform of the program; the platforms only differ
  before the year 1000), \<open>%%\<close> is a percent sign. Every other character is copied.
\<close>

function decimal :: "nat \<Rightarrow> pystr" where
  "decimal n = (if n < 10 then [48 + n] else decimal (n div 10) @ [48 + n mod 10])"
  by pat_completeness auto
termination
  by (relation "measure id") auto

declare decimal.simps [simp del]

definition zero_padded :: "nat \<Rightarrow> int \<Rightarrow> pystr" where
  "zero_padded w n = replicate (w - length (decimal (nat n))) 48 @ decimal (nat n)"

definition directive :: "pychar \<Rightarrow> datetime \<Rightarrow> pystr" where
  "directive c dt =
     (if c = 100 then zero_padded 2 (day (date_part dt))
      else if c = 109 then zero_padded 2 (month (date_part dt))
      else if c = 89 then zero_padded 4 (year (date_part dt))
      else if c = 72 then zero_padded 2 (hour (time_part dt))
      else if c = 77 then zero_padded 2 (minute (time_part dt))
      else if c = 83 then zero_padded 2 (second (time_part dt))
      else if c = 37 then [37]
      else [37, c])"

fun strftime :: "pystr \<Rightarrow> datetime \<Rightarrow> pystr" where
  "strftime [] dt = []"
| "strftime [c] dt = [c]"
| "strftime (c # d # cs) dt =
     (if c = 37 then directive d dt @ strftime cs dt else c # strftime (d # cs) dt)"

text \<open>
  The literals of the renderer, as code points. In order: the three spellings of the
  name of the housing estate (U+0416 U+041A, U+0436 U+043A and all lower case) and the
  name that replaces them; the street address and the one that replaces it; the phrase
  with the apartment number 19 of the example, and that phrase up to the number; the
  three placeholders \<open>{{flat}}\<close>, \<open>{{date}}\<close> and \<open>{{time}}\<close>; the two formats of \<open>strftime\<close>,
  \<open>%d.%m.%Y\<close> and \<open>%H:%M\<close>.
\<close>

definition name_upper :: pystr where
  "name_upper = [1046, 1050, 32, 1057, 1072, 1083, 1102, 1090]"

definition name_mixed :: pystr where
  "name_mixed = [1078, 1082, 32, 1057, 1072, 1083, 1102, 1090]"

definition name_lower :: pystr where
  "name_lower = [1078, 1082, 32, 1089, 1072, 1083, 1102, 1090]"

definition name_canonical :: pystr where
  "name_canonical = [1046, 1050, 32, 1050, 1088, 1072, 1089, 1085, 1099, 1081, 32, 1052, 1077,
     1090, 1072, 1083, 1083, 1080, 1089, 1090]"

definition address_old :: pystr where
  "address_old = [1091, 1083, 46, 32, 53, 48, 32, 1083, 1077, 1090, 32, 1042, 1051, 1050, 1057,
     1052, 44, 32, 1076, 46, 32, 49, 49, 47, 49]"

definition address_new :: pystr where
  "address_new = [1091, 1083, 46, 32, 1043, 1088, 1072, 1078, 1076, 1072, 1085, 1089, 1082, 1072,
     1103, 44, 32, 1076, 46, 32, 49, 47, 49]"

definition flat_example :: pystr where
  "flat_example = [1050, 1074, 1072, 1088, 1090, 1080, 1088, 1072, 32, 8470, 32, 49, 57]"

definition flat_phrase :: pystr where
  "flat_phrase = [1050, 1074, 1072, 1088, 1090, 1080, 1088, 1072, 32, 8470, 32]"

definition ph_flat :: pystr where
  "ph_flat = [123, 123, 102, 108, 97, 116, 125, 125]"

definition ph_date :: pystr where
  "ph_date = [123, 123, 100, 97, 116, 101, 125, 125]"

definition ph_time :: pystr where
  "ph_time = [123, 123, 116, 105, 109, 101, 125, 125]"

definition date_format :: pystr where
  "date_format = [37, 100, 46, 37, 109, 46, 37, 89]"

definition time_format :: pystr where
  "time_format = [37, 72, 58, 37, 77]"

text \<open>
  The body of the loop of \<open>on_generate\<close> that renders the text for one apartment:
  \<^verbatim>\<open>
  date_str = dt.strftime("%d.%m.%Y")
  time_str = dt.strftime("%H:%M")
  text = template_text
  text = text.replace(<name_upper>, <name_canonical>)
  text = text.replace(<name_mixed>, <name_canonical>)
  text = text.replace(<name_lower>, <name_canonical>)
  text = text.replace(<address_old>, <address_new>)
  text = text.replace(<flat_example>, f"<flat_phrase>{apt}")
  text = text.replace("{{flat}}", str(apt))
  text = text.replace("{{date}}", date_str)
  text = text.replace("{{time}}", time_str)
  \<close>
\<close>

definition render :: "pystr \<Rightarrow> pystr \<Rightarrow> datetime \<Rightarrow> pystr" where
  "render template_text apt dt =
     (let date_str = strftime date_format dt;
          time_str = strftime time_format dt;
          text = template_text;
          text = py_replace name_upper name_canonical text;
          text = py_replace name_mixed name_canonical text;
          text = py_replace name_lower name_canonical text;
          text = py_replace address_old address_new text;
          text = py_replace flat_example (flat_phrase @ apt) text;
          text = py_replace ph_flat apt text;
          text = py_replace ph_date date_str text;
          text = py_replace ph_time time_str text
      in text)"

text \<open>
  The renderer as the specification words it: an ordered list of pairs of a text to
  match and its replacement, applied one after the other, with the date written
  \<open>DD.MM.YYYY\<close> and the time \<open>HH:MM\<close>.
\<close>

definition two_digits :: "int \<Rightarrow> pystr" where
  "two_digits n = [48 + nat n div 10, 48 + nat n mod 10]"

definition four_digits :: "int \<Rightarrow> pystr" where
  "four_digits n =
     [48 + nat n div 1000, 48 + nat n div 100 mod 10, 48 + nat n div 10 mod 10, 48 + nat n mod 10]"

definition dd_mm_yyyy :: "datetime \<Rightarrow> pystr" where
  "dd_mm_yyyy dt =
     two_digits (day (date_part dt)) @ [46] @ two_digits (month (date_part dt)) @ [46]
     @ four_digits (year (date_part dt))"

definition hh_mm :: "datetime \<Rightarrow> pystr" where
  "hh_mm dt = two_digits (hour (time_part dt)) @ [58] @ two_digits (minute (time_part dt))"

definition fixed_replacements :: "pystr \<Rightarrow> (pystr \<times> pystr) list" where
  "fixed_replacements apt =
     [(name_upper, name_canonical), (name_mixed, name_canonical), (name_lower, name_canonical),
      (address_old, address_new), (flat_example, flat_phrase @ apt)]"

definition placeholder_replacements :: "pystr \<Rightarrow> datetime \<Rightarrow> (pystr \<times> pystr) list" where
  "placeholder_replacements apt dt =
     [(ph_flat, apt), (ph_date, dd_mm_yyyy dt), (ph_time, hh_mm dt)]"

definition apply_replacements :: "(pystr \<times> pystr) list \<Rightarrow> pystr \<Rightarrow> pystr" where
  "apply_replacements rs text = foldl (\<lambda>t r. py_replace (fst r) (snd r) t) text rs"

text \<open>The replacements of the renderer that depend neither on the apartment nor on the
  date: the three spellings of the name, then the address.\<close>

definition legacy :: "pystr \<Rightarrow> pystr" where
  "legacy t = py_replace address_old address_new (py_replace name_lower name_canonical
     (py_replace name_mixed name_canonical (py_replace name_upper name_canonical t)))"

text \<open>No occurrence of \<open>p\<close> starts inside the text \<open>new\<close>, within it or running over its end.\<close>

fun no_start_in :: "pystr \<Rightarrow> pystr \<Rightarrow> bool" where
  "no_start_in p [] = True"
| "no_start_in p (c # cs) = (\<not> prefix p (c # cs) \<and> \<not> prefix (c # cs) p \<and> no_start_in p cs)"

section \<open>Files, the history store and a generation run\<close>

text \<open>
  A path is the list of its components below the root, so that \<open>p / name\<close> appends a
  component and \<open>p.name\<close> is the last one. The files the program writes are documents
  (the paragraphs of a \<open>.docx\<close> file) and archives (the members of a ZIP file, each a name
  and the content stored under it).
\<close>

type_synonym path = "pystr list"

definition path_name :: "path \<Rightarrow> pystr" where
  "path_name p = (if p = [] then [] else last p)"

text \<open>\<open>str(path)\<close>, in the POSIX form.\<close>

definition path_str :: "path \<Rightarrow> pystr" where
  "path_str p = concat (map (\<lambda>c. 47 # c) p)"

datatype file_content = Docx "pystr list" | Zip "(pystr \<times> file_content) list"

text \<open>JSON values; the numbers of the history are counts, so only the integers are kept.\<close>

datatype json = JNull | JBool bool | JInt int | JStr pystr | JList "json list"
  | JDict "(pystr \<times> json) list"

text \<open>
  The history file \<open>history.json\<close> of the application directory: it does not exist, or
  reading it fails (\<open>open\<close> or \<open>json.load\<close> raises), or it holds a JSON value.
\<close>

datatype history_state = Missing | Unreadable | Holds json

text \<open>
  The part of the machine a run reads and changes: the files and the directories on
  disk, the history file and the state of the random source.
\<close>

record world =
  files :: "path \<rightharpoonup> file_content"
  dirs :: "path set"
  history_file :: history_state
  rng_state :: rng

text \<open>
  What a run takes from its environment and does not change: the working directory,
  the two readings of the clock (\<open>datetime.now()\<close> formatted \<open>%Y%m%d_%H%M%S\<close> when the
  run starts, and in ISO format when the history entry is made), and which operations
  of the file system fail.
\<close>

record env =
  cwd :: path
  now_stamp :: pystr
  now_iso :: pystr
  mkdir_fails :: "path \<Rightarrow> bool"
  docx_fails :: "path \<Rightarrow> pystr \<Rightarrow> bool"
  zip_fails :: "path \<Rightarrow> bool"
  history_write_fails :: bool

text \<open>The widgets of the window that \<open>on_generate\<close> reads.\<close>

record ui =
  template_edit :: pystr
  apts_edit :: pystr
  date_from :: date
  date_to :: date
  time_from :: time
  time_to :: time
  archive_name :: pystr

text \<open>
  How a run ends: with one of the two warnings, with the error dialog for a document
  that could not be written (it names the file), with an exception that nothing
  catches, or with the dialog that reports the number of documents and the archive.
\<close>

datatype outcome = EmptyTemplate | EmptyApartmentList | DocumentWriteFailure pystr
  | Crashed py_error | Completed nat path

text \<open>\<open>str.splitlines()\<close>: the lines of a text, without their line breaks; \<open>\r\n\<close> is one
  line break. \<open>cur\<close> is the line being read, reversed.\<close>

definition is_linebreak :: "pychar \<Rightarrow> bool" where
  "is_linebreak c = (c \<in> {10, 11, 12, 13, 28, 29, 30, 133, 8232, 8233})"

fun splitlines_acc :: "pystr \<Rightarrow> pystr \<Rightarrow> pystr list" where
  "splitlines_acc cur [] = (if cur = [] then [] else [rev cur])"
| "splitlines_acc cur [c] = (if is_linebreak c then [rev cur] else [rev (c # cur)])"
| "splitlines_acc cur (c # d # cs) =
     (if c = 13 \<and> d = 10 then rev cur # splitlines_acc [] cs
      else if is_linebreak c then rev cur # splitlines_acc [] (d # cs)
      else splitlines_acc (c # cur) (d # cs))"

definition py_splitlines :: "pystr \<Rightarrow> pystr list" where
  "py_splitlines s = splitlines_acc [] s"

text \<open>
  \<^verbatim>\<open>
  def make_docx_from_text(text, out_path):
      doc = Document()
      for line in text.splitlines():
          doc.add_paragraph(line)
      doc.save(str(out_path))
  \<close>
  Whether building or saving the document raises is for the environment to say; a
  document that cannot be written leaves the disk as it was.
\<close>

definition make_docx_from_text :: "env \<Rightarrow> pystr \<Rightarrow> path \<Rightarrow> world \<Rightarrow> py_error + world" where
  "make_docx_from_text e text out_path w =
     (if docx_fails e out_path text then Inl OSError
      else Inr (w\<lparr>files := (files w)(out_path \<mapsto> Docx (py_splitlines text))\<rparr>))"

text \<open>
  \<^verbatim>\<open>
  def append_history(entry):
      history = []
      if HISTORY_FILE.exists():
          try:
              with open(HISTORY_FILE, "r", encoding='utf-8') as f:
                  history = json.load(f)
          except:
              history = []
      history.append(entry)
      with open(HISTORY_FILE, "w", encoding='utf-8') as f:
          json.dump(history, f, ensure_ascii=False, indent=2)
  \<close>
  A value that \<open>json.load\<close> returns and that is not a list has no method \<open>append\<close>.
\<close>

definition load_history :: "history_state \<Rightarrow> json" where
  "load_history h = (case h of Missing \<Rightarrow> JList [] | Unreadable \<Rightarrow> JList [] | Holds v \<Rightarrow> v)"

definition append_history :: "env \<Rightarrow> json \<Rightarrow> world \<Rightarrow> py_error + world" where
  "append_history e entry w =
     (case load_history (history_file w) of
        JList history \<Rightarrow>
          (if history_write_fails e then Inl OSError
           else Inr (w\<lparr>history_file := Holds (JList (history @ [entry]))\<rparr>))
      | _ \<Rightarrow> Inl AttributeError)"

text \<open>The entries of the history that a run finds: those of a readable list.\<close>

definition history_entries :: "history_state \<Rightarrow> json list" where
  "history_entries h = (case load_history h of JList xs \<Rightarrow> xs | _ \<Rightarrow> [])"

text \<open>The literals of \<open>on_generate\<close>: the prefix of the output folder, the prefix and the
  extension of a document, the prefix of the default name of the archive and its
  extension, and the keys of a history entry.\<close>

definition folder_prefix :: pystr where
  "folder_prefix = [111, 117, 116, 112, 117, 116, 95, 110, 111, 116, 105, 102, 105, 99, 97, 116,
     105, 111, 110, 115, 95]"

definition doc_prefix :: pystr where
  "doc_prefix = [1059, 1074, 1077, 1076, 1086, 1084, 1083, 1077, 1085, 1080, 1077, 95, 1082,
     1074, 95]"

definition docx_ext :: pystr where
  "docx_ext = [46, 100, 111, 99, 120]"

definition archive_prefix :: pystr where
  "archive_prefix = [1091, 1074, 1077, 1076, 1086, 1084, 1083, 1077, 1085, 1080, 1103, 95]"

definition zip_ext :: pystr where
  "zip_ext = [46, 122, 105, 112]"

definition key_timestamp :: pystr where
  "key_timestamp = [116, 105, 109, 101, 115, 116, 97, 109, 112]"

definition key_count :: pystr where
  "key_count = [99, 111, 117, 110, 116]"

definition key_archive :: pystr where
  "key_archive = [97, 114, 99, 104, 105, 118, 101]"

definition doc_filename :: "pystr \<Rightarrow> pystr" where
  "doc_filename apt = doc_prefix @ apt @ docx_ext"

text \<open>\<open>datetime.time(h, m)\<close>, which raises \<open>ValueError\<close> on a field out of range.\<close>

definition mk_time :: "int \<Rightarrow> int \<Rightarrow> py_error + time" where
  "mk_time h m =
     (if 0 \<le> h \<and> h < 24 \<and> 0 \<le> m \<and> m < 60 then Inr \<lparr>hour = h, minute = m, second = 0\<rparr>
      else Inl ValueError)"

text \<open>
  The loop of \<open>on_generate\<close> over the apartments:
  \<^verbatim>\<open>
  for apt in apartments:
      dt = random_datetime_between(dt_from, dt_to, t_from, t_to)
      ...                                  # the text is rendered
      filename = f"<doc_prefix>{apt}.docx"
      out_path = out_folder / filename
      try:
          make_docx_from_text(text, out_path)
          generated_files.append(out_path)
      except Exception as e:
          QMessageBox.critical(self, ..., f"... {filename}:\\n{e}")
          return
  \<close>
  It returns the paths of the documents, or how the run ended.
\<close>

fun generate_loop ::
  "env \<Rightarrow> pystr \<Rightarrow> date \<Rightarrow> date \<Rightarrow> time \<Rightarrow> time \<Rightarrow> path \<Rightarrow> pystr list \<Rightarrow> path list \<Rightarrow> world
     \<Rightarrow> (outcome + path list) \<times> world" where
  "generate_loop e template_text dt_from dt_to t_from t_to out_folder [] generated_files w =
     (Inr generated_files, w)"
| "generate_loop e template_text dt_from dt_to t_from t_to out_folder (apt # apartments)
     generated_files w =
     (case random_datetime_between dt_from dt_to t_from t_to (rng_state w) of
        (Inl err, g) \<Rightarrow> (Inl (Crashed err), w\<lparr>rng_state := g\<rparr>)
      | (Inr dt, g) \<Rightarrow>
          (let w1 = w\<lparr>rng_state := g\<rparr>;
               text = render template_text apt dt;
               filename = doc_filename apt;
               out_path = out_folder @ [filename]
           in case make_docx_from_text e text out_path w1 of
                Inl err \<Rightarrow> (Inl (DocumentWriteFailure filename), w1)
              | Inr w2 \<Rightarrow>
                  generate_loop e template_text dt_from dt_to t_from t_to out_folder apartments
                    (generated_files @ [out_path]) w2))"

text \<open>
  \<^verbatim>\<open>
  with ZipFile(zip_path, "w") as zf:
      for f in generated_files:
          zf.write(f, arcname=f.name)
  \<close>
  Opening the archive creates it empty, or fails; \<open>zf.write\<close> reads the file from the
  disk; leaving the \<open>with\<close> block closes the archive with the members written so far,
  also when a member could not be read.
\<close>

fun add_members ::
  "(path \<rightharpoonup> file_content) \<Rightarrow> path list \<Rightarrow> (pystr \<times> file_content) list
     \<Rightarrow> (py_error + unit) \<times> (pystr \<times> file_content) list" where
  "add_members fs [] members = (Inr (), members)"
| "add_members fs (f # rest) members =
     (case fs f of
        None \<Rightarrow> (Inl FileNotFoundError, members)
      | Some content \<Rightarrow> add_members fs rest (members @ [(path_name f, content)]))"

definition write_zip :: "env \<Rightarrow> path \<Rightarrow> path list \<Rightarrow> world \<Rightarrow> (py_error + unit) \<times> world" where
  "write_zip e zip_path generated_files w =
     (if zip_fails e zip_path then (Inl OSError, w)
      else let fs = (files w)(zip_path \<mapsto> Zip []);
               (r, members) = add_members fs generated_files []
           in (r, w\<lparr>files := fs(zip_path \<mapsto> Zip members)\<rparr>))"

text \<open>
  \<^verbatim>\<open>
  def on_generate(self):
      template_text = self.template_edit.toPlainText().strip()
      if not template_text:
          QMessageBox.warning(...)
          return
      apts_text = self.apts_edit.toPlainText()
      apartments = parse_apartments(apts_text)
      if not apartments:
          QMessageBox.warning(...)
          return
      dt_from = self.date_from.date().toPyDate()
      dt_to = self.date_to.date().toPyDate()
      t_from_q = self.time_from.time()
      t_to_q = self.time_to.time()
      t_from = dtime(t_from_q.hour(), t_from_q.minute())
      t_to = dtime(t_to_q.hour(), t_to_q.minute())
      timestamp = datetime.now().strftime("%Y%m%d_%H%M%S")
      out_folder = Path.cwd() / f"output_notifications_{timestamp}"
      out_folder.mkdir(parents=True, exist_ok=True)
      generated_files = []
      for apt in apartments:
          ...                                  # generate_loop
      archive_name = self.archive_name.text().strip() or f"<archive_prefix>{timestamp}"
      zip_path = Path.cwd() / f"{archive_name}.zip"
      with ZipFile(zip_path, "w") as zf:
          ...                                  # write_zip
      entry = {"timestamp": datetime.now().isoformat(), "count": len(generated_files),
               "archive": str(zip_path)}
      append_history(entry)
      QMessageBox.information(...)
  \<close>
\<close>

definition out_folder_of :: "env \<Rightarrow> path" where
  "out_folder_of e = cwd e @ [folder_prefix @ now_stamp e]"

definition zip_path_of :: "env \<Rightarrow> ui \<Rightarrow> path" where
  "zip_path_of e u =
     (let archive_name = (if py_strip (archive_name u) \<noteq> [] then py_strip (archive_name u)
                          else archive_prefix @ now_stamp e)
      in cwd e @ [archive_name @ zip_ext])"

definition history_entry :: "env \<Rightarrow> nat \<Rightarrow> path \<Rightarrow> json" where
  "history_entry e n zip_path =
     JDict [(key_timestamp, JStr (now_iso e)), (key_count, JInt (int n)),
            (key_archive, JStr (path_str zip_path))]"

definition on_generate :: "env \<Rightarrow> ui \<Rightarrow> world \<Rightarrow> outcome \<times> world" where
  "on_generate e u w =
     (let template_text = py_strip (template_edit u) in
      if template_text = [] then (EmptyTemplate, w)
      else let apartments = parse_apartments (apts_edit u) in
      if apartments = [] then (EmptyApartmentList, w)
      else let dt_from = date_from u; dt_to = date_to u in
      case mk_time (hour (time_from u)) (minute (time_from u)) of
        Inl err \<Rightarrow> (Crashed err, w)
      | Inr t_from \<Rightarrow>
      (case mk_time (hour (time_to u)) (minute (time_to u)) of
        Inl err \<Rightarrow> (Crashed err, w)
      | Inr t_to \<Rightarrow>
      (let out_folder = out_folder_of e in
       if mkdir_fails e out_folder then (Crashed OSError, w)
       else let w1 = w\<lparr>dirs := insert out_folder (dirs w)\<rparr> in
       case generate_loop e template_text dt_from dt_to t_from t_to out_folder apartments [] w1 of
         (Inl stopped, w2) \<Rightarrow> (stopped, w2)
       | (Inr generated_files, w2) \<Rightarrow>
           (let zip_path = zip_path_of e u in
            case write_zip e zip_path generated_files w2 of
              (Inl err, w3) \<Rightarrow> (Crashed err, w3)
            | (Inr _, w3) \<Rightarrow>
                (let entry = history_entry e (length generated_files) zip_path in
                 case append_history e entry w3 of
                   Inl err \<Rightarrow> (Crashed err, w3)
                 | Inr w4 \<Rightarrow> (Completed (length generated_files) zip_path, w4))))))"

text \<open>Names for what a run computes from the window before the loop starts: the template
  and the apartments, the two times of day with the seconds dropped, and the path of the
  document of an apartment.\<close>

abbreviation template_of :: "ui \<Rightarrow> pystr" where
  "template_of u \<equiv> py_strip (template_edit u)"

abbreviation apartments_of :: "ui \<Rightarrow> pystr list" where
  "apartments_of u \<equiv> parse_apartments (apts_edit u)"

abbreviation t_from_of :: "ui \<Rightarrow> time" where
  "t_from_of u \<equiv> \<lparr>hour = hour (time_from u), minute = minute (time_from u), second = 0\<rparr>"

abbreviation t_to_of :: "ui \<Rightarrow> time" where
  "t_to_of u \<equiv> \<lparr>hour = hour (time_to u), minute = minute (time_to u), second = 0\<rparr>"

abbreviation doc_path :: "env \<Rightarrow> pystr \<Rightarrow> path" where
  "doc_path e apt \<equiv> out_folder_of e @ [doc_filename apt]"

definition time_ok :: "time \<Rightarrow> bool" where
  "time_ok t = (0 \<le> hour t \<and> hour t < 24 \<and> 0 \<le> minute t \<and> minute t < 60)"

text \<open>The run reaches the loop: neither warning is shown, the two times are accepted and
  the output folder is made.\<close>

definition reaches_loop :: "env \<Rightarrow> ui \<Rightarrow> bool" where
  "reaches_loop e u =
     (template_of u \<noteq> [] \<and> apartments_of u \<noteq> [] \<and> time_ok (time_from u) \<and> time_ok (time_to u)
      \<and> \<not> mkdir_fails e (out_folder_of e))"

abbreviation loop_of :: "env \<Rightarrow> ui \<Rightarrow> world \<Rightarrow> (outcome + path list) \<times> world" where
  "loop_of e u w \<equiv>
     generate_loop e (template_of u) (date_from u) (date_to u) (t_from_of u) (t_to_of u)
       (out_folder_of e) (apartments_of u) [] (w\<lparr>dirs := insert (out_folder_of e) (dirs w)\<rparr>)"

section \<open>An example run\<close>

text \<open>
  The end-to-end example of the specification, used to instantiate the theorems below:
  the template \<open>{{flat}}|{{date}}|{{time}}\<close>, the apartments \<open>"5, 7"\<close>, the single day
  2024-03-05 and the single minute 08:07, the archive name \<open>" a "\<close>; a working directory
  \<open>/h\<close>, a clock at 2024-03-05 12:00, an empty disk, no history file, and a file system
  on which nothing fails. In \<open>failing_env\<close> the document of apartment 7 cannot be written.
\<close>

definition example_ui :: ui where
  "example_ui =
     \<lparr>template_edit = ph_flat @ [124] @ ph_date @ [124] @ ph_time,
      apts_edit = [53, 44, 32, 55],
      date_from = \<lparr>year = 2024, month = 3, day = 5\<rparr>,
      date_to = \<lparr>year = 2024, month = 3, day = 5\<rparr>,
      time_from = \<lparr>hour = 8, minute = 7, second = 0\<rparr>,
      time_to = \<lparr>hour = 8, minute = 7, second = 0\<rparr>,
      archive_name = [32, 97, 32]\<rparr>"

definition example_env :: env where
  "example_env =
     \<lparr>cwd = [[104]],
      now_stamp = [50, 48, 50, 52, 48, 51, 48, 53, 95, 49, 50, 48, 48, 48, 48],
      now_iso = [50, 48, 50, 52, 45, 48, 51, 45, 48, 53, 84, 49, 50, 58, 48, 48, 58, 48, 49],
      mkdir_fails = (\<lambda>p. False),
      docx_fails = (\<lambda>p t. False),
      zip_fails = (\<lambda>p. False),
      history_write_fails = False\<rparr>"



definition example_world :: world where
  "example_world =
     \<lparr>files = Map.empty, dirs = {}, history_file = Missing, rng_state = (\<lambda>i. 7 * i)\<rparr>"

section \<open>Properties\<close>

subsection \<open>Character classes and string operations\<close>

lemma isdigit_bounds:
  assumes "py_isdigit c"
  shows "48 \<le> c" and "\<not> (58 \<le> c \<and> c \<le> 177)" and "\<not> (4978 \<le> c \<and> c \<le> 6111)"
    and "\<not> (7258 \<le> c \<and> c \<le> 8303)" and "\<not> (10131 \<le> c \<and> c \<le> 42527)"
  using assms unfolding py_isdigit_def in_ranges_def digit_ranges_def by auto

lemma isspace_cases:
  assumes "py_isspace c"
  shows "c \<le> 32 \<or> (58 \<le> c \<and> c \<le> 177) \<or> (4978 \<le> c \<and> c \<le> 6111)
     \<or> (7258 \<le> c \<and> c \<le> 8303) \<or> (10131 \<le> c \<and> c \<le> 42527)"
  using assms unfolding py_isspace_def in_ranges_def space_ranges_def by auto

lemma digit_not_space: "py_isdigit c \<Longrightarrow> \<not> py_isspace c"
  using isdigit_bounds[of c] isspace_cases[of c] by auto

lemma py_replace_char: "py_replace [a] [b] s = map (\<lambda>c. if c = a then b else c) s"
  by (induction s) auto

lemma split_on_Nil: "split_on sep [] = []"
  by (subst split_on.simps) simp

lemma split_on_sep_Cons: "sep c \<Longrightarrow> split_on sep (c # s) = split_on sep s"
  by (subst split_on.simps, subst (2) split_on.simps) simp

lemma split_on_token:
  assumes "t \<noteq> []" and "\<forall>c\<in>set t. \<not> sep c" and "s = [] \<or> sep (hd s)"
  shows "split_on sep (t @ s) = t # split_on sep s"
proof -
  obtain x xs where t: "t = x # xs" using assms(1) by (cases t) auto
  have nx: "\<not> sep x" and nxs: "\<forall>c\<in>set xs. \<not> sep c" using assms(2) t by auto
  have tw: "takeWhile (\<lambda>c. \<not> sep c) (xs @ s) = xs"
    using nxs assms(3) by (cases s) (auto simp: takeWhile_append)
  have dw: "dropWhile (\<lambda>c. \<not> sep c) (xs @ s) = s"
    using nxs assms(3) by (cases s) (auto simp: dropWhile_append)
  show ?thesis
    unfolding t by (subst split_on.simps) (simp add: nx tw dw)
qed

lemma split_acc_split_on:
  "\<forall>c\<in>set cur. \<not> py_isspace c \<Longrightarrow> split_acc cur s = split_on py_isspace (rev cur @ s)"
proof (induction s arbitrary: cur)
  case Nil
  then show ?case
    using split_on_token[of "rev cur" py_isspace "[]"] by (auto simp: split_on_Nil)
next
  case (Cons c cs)
  show ?case
  proof (cases "py_isspace c")
    case True
    have a: "split_acc [] cs = split_on py_isspace cs" using Cons.IH[of "[]"] by simp
    show ?thesis
    proof (cases "cur = []")
      case True
      then show ?thesis using \<open>py_isspace c\<close> a by (simp add: split_on_sep_Cons)
    next
      case False
      then show ?thesis
        using \<open>py_isspace c\<close> a Cons.prems split_on_token[of "rev cur" py_isspace "c # cs"]
        by (simp add: split_on_sep_Cons)
    qed
  next
    case False
    then show ?thesis using Cons.IH[of "c # cur"] Cons.prems by simp
  qed
qed

lemma py_split_split_on: "py_split s = split_on py_isspace s"
  using split_acc_split_on[of "[]" s] by (simp add: py_split_def)

lemma split_on_map: "split_on sep (map f s) = map (map f) (split_on (\<lambda>c. sep (f c)) s)"
proof (induction "\<lambda>c. sep (f c)" s rule: split_on.induct)
  case (1 s)
  have L: "dropWhile sep (map f s) = map f (dropWhile (\<lambda>c. sep (f c)) s)"
    by (simp add: dropWhile_map comp_def)
  show ?case
  proof (cases "dropWhile (\<lambda>c. sep (f c)) s")
    case Nil
    have "split_on sep (map f s) = []"
      by (subst split_on.simps) (simp only: L Nil, simp)
    moreover have "split_on (\<lambda>c. sep (f c)) s = []"
      by (subst split_on.simps) (simp only: Nil, simp)
    ultimately show ?thesis by simp
  next
    case (Cons x xs)
    have a: "split_on sep (map f s)
          = takeWhile (\<lambda>c. \<not> sep c) (map f (x # xs)) # split_on sep (dropWhile (\<lambda>c. \<not> sep c) (map f xs))"
      by (subst split_on.simps) (simp only: L Cons, simp)
    have b: "split_on (\<lambda>c. sep (f c)) s
          = takeWhile (\<lambda>c. \<not> sep (f c)) (x # xs) # split_on (\<lambda>c. sep (f c)) (dropWhile (\<lambda>c. \<not> sep (f c)) xs)"
      by (subst split_on.simps) (simp only: Cons, simp)
    have c: "dropWhile (\<lambda>c. \<not> sep c) (map f xs) = map f (dropWhile (\<lambda>c. \<not> sep (f c)) xs)"
      by (simp add: dropWhile_map comp_def)
    have d: "takeWhile (\<lambda>c. \<not> sep c) (map f (x # xs)) = map f (takeWhile (\<lambda>c. \<not> sep (f c)) (x # xs))"
      by (simp only: takeWhile_map comp_def)
    show ?thesis
      unfolding a b c d using 1[OF Cons] by simp
  qed
qed

lemma filter_dropWhile_disj:
  "(\<And>x. Q x \<Longrightarrow> \<not> P x) \<Longrightarrow> filter P (dropWhile Q xs) = filter P xs"
  by (induction xs) auto

lemma filter_digit_strip: "filter py_isdigit (py_strip t) = filter py_isdigit t"
proof -
  have sp: "\<And>x. py_isspace x \<Longrightarrow> \<not> py_isdigit x" using digit_not_space by blast
  show ?thesis
    unfolding py_strip_def
    by (simp add: rev_filter[symmetric] filter_dropWhile_disj[OF sp])
qed

lemma collect_parts_eq:
  "collect_parts parts toks = parts @ filter (\<lambda>n. n \<noteq> []) (map (filter py_isdigit) toks)"
proof (induction toks arbitrary: parts)
  case Nil
  then show ?case by simp
next
  case (Cons t toks)
  have "py_strip t = [] \<Longrightarrow> filter py_isdigit t = []"
    using filter_digit_strip[of t] by simp
  then show ?case
    using Cons.IH by (auto simp: Let_def filter_digit_strip)
qed

lemma set_dedup_first: "set (dedup_first xs) = set xs"
  by (induction xs rule: dedup_first.induct) auto

lemma distinct_dedup_first: "distinct (dedup_first xs)"
  by (induction xs rule: dedup_first.induct) (auto simp: set_dedup_first)

lemma uniq_loop_eq:
  "uniq_loop (set uniq) uniq ps = uniq @ dedup_first (filter (\<lambda>p. p \<notin> set uniq) ps)"
proof (induction ps arbitrary: uniq)
  case Nil
  then show ?case by simp
next
  case (Cons p ps)
  show ?case
  proof (cases "p \<in> set uniq")
    case True
    then show ?thesis using Cons.IH[of uniq] by simp
  next
    case False
    have f: "filter (\<lambda>q. q \<notin> set (uniq @ [p])) ps
             = filter (\<lambda>y. y \<noteq> p) (filter (\<lambda>q. q \<notin> set uniq) ps)"
      by (induction ps) auto
    have "uniq_loop (set uniq) uniq (p # ps) = uniq_loop (set (uniq @ [p])) (uniq @ [p]) ps"
      using False by simp
    also have "\<dots> = (uniq @ [p]) @ dedup_first (filter (\<lambda>q. q \<notin> set (uniq @ [p])) ps)"
      by (rule Cons.IH)
    also have "\<dots> = uniq @ dedup_first (p # filter (\<lambda>q. q \<notin> set uniq) ps)"
      by (simp only: f dedup_first.simps append_assoc append_Cons append_Nil)
    also have "\<dots> = uniq @ dedup_first (filter (\<lambda>q. q \<notin> set uniq) (p # ps))"
      using False by simp
    finally show ?thesis .
  qed
qed

lemma comma_map_digits:
  "filter py_isdigit (map (\<lambda>c. if c = 44 then 32 else c) t) = filter py_isdigit t"
proof -
  have "\<not> py_isdigit 44" "\<not> py_isdigit 32" using isdigit_bounds(1) by fastforce+
  then show ?thesis by (induction t) auto
qed

lemma parse_apartments_normalize: "parse_apartments text = normalize_by py_isdigit text"
proof -
  have "py_split (py_replace [44] [32] text)
        = map (map (\<lambda>c. if c = 44 then 32 else c)) (split_on (\<lambda>c. py_isspace (if c = 44 then 32 else c)) text)"
    by (simp add: py_split_split_on py_replace_char split_on_map)
  moreover have "(\<lambda>c. py_isspace (if c = 44 then 32 else c)) = is_sep"
    by (auto simp: is_sep_def fun_eq_iff py_isspace_def in_ranges_def space_ranges_def)
  ultimately show ?thesis
    using uniq_loop_eq[of "[]"]
    by (simp add: parse_apartments_def normalize_by_def collect_parts_eq comp_def comma_map_digits)
qed

lemma parse_apartments_set:
  "set (parse_apartments text) = filter py_isdigit ` set (split_on is_sep text) - {[]}"
proof -
  have "set (parse_apartments text)
        = set (filter (\<lambda>n. n \<noteq> []) (map (filter py_isdigit) (split_on is_sep text)))"
    unfolding parse_apartments_normalize normalize_by_def by (rule set_dedup_first)
  also have "\<dots> = filter py_isdigit ` set (split_on is_sep text) - {[]}"
    by (simp only: set_filter set_map) blast
  finally show ?thesis .
qed

lemma apartment_is_digits:
  assumes "n \<in> set (parse_apartments text)"
  shows "n \<noteq> []" and "\<forall>c \<in> set n. py_isdigit c"
proof -
  obtain t where "n = filter py_isdigit t" and "n \<noteq> []"
    using assms unfolding parse_apartments_set by blast
  then show "n \<noteq> []" and "\<forall>c \<in> set n. py_isdigit c" by simp_all
qed

lemma distinct_apartments: "distinct (parse_apartments text)"
  by (simp add: parse_apartments_normalize normalize_by_def distinct_dedup_first)

subsection \<open>The apartment list normalizer\<close>

lemma eval_isdigit:
  "py_isdigit 49" "py_isdigit 50" "py_isdigit 51" "py_isdigit 52" "py_isdigit 178"
  "\<not> py_isdigit 97" "\<not> py_isdigit 32" "\<not> py_isdigit 44" "\<not> py_isdigit 10"
  by (simp_all add: py_isdigit_def in_ranges_def digit_ranges_def)

lemma eval_isspace:
  "py_isspace 32" "py_isspace 10" "\<not> py_isspace 44" "\<not> py_isspace 49" "\<not> py_isspace 50"
  "\<not> py_isspace 51" "\<not> py_isspace 52" "\<not> py_isspace 97" "\<not> py_isspace 178"
  by (simp_all add: py_isspace_def in_ranges_def space_ranges_def)

lemmas eval_parse = parse_apartments_def py_split_def py_strip_def Let_def eval_isdigit eval_isspace

text \<open>
  Claim C1, as stated, at the input \<open>"1\<twosuperior>"\<close> (the digit one and U+00B2, superscript two):
  \<open>str.isdigit\<close> holds of the superscript, which is no decimal digit, so the source keeps
  it, where keeping only the decimal digits of the token gives \<open>"1"\<close>.
\<close>

theorem parse_apartments_superscript:
  "parse_apartments [49, 178] = [[49, 178]] \<and> normalize_by py_isdecimal [49, 178] = [[49]]"
proof -
  have "split_on is_sep ([49, 178] @ []) = [49, 178] # split_on is_sep []"
    by (rule split_on_token) (simp_all add: is_sep_def eval_isspace)
  then have f: "split_on is_sep [49, 178] = [[49, 178]]" by (simp add: split_on_Nil)
  have "py_isdecimal 49" "\<not> py_isdecimal 178"
    by (simp_all add: py_isdecimal_def in_ranges_def decimal_ranges_def)
  then have "normalize_by py_isdecimal [49, 178] = [[49]]"
    by (simp add: normalize_by_def f)
  moreover have "parse_apartments [49, 178] = [[49, 178]]"
    by (simp add: eval_parse)
  ultimately show ?thesis by simp
qed

text \<open>
  Claim C1, amended. For every raw text, \<open>parse_apartments\<close> returns what the
  specification describes, with the characters kept being those of \<open>str.isdigit\<close> (the
  decimal digits and the other Unicode digits, such as superscripts): the text is split at
  commas and whitespace alike, each token keeps its \<open>isdigit\<close> characters, tokens without
  any are dropped, and of equal identifiers the first occurrence stays, in order. The
  result has no duplicates, and \<open>"12, 12 13\n14a"\<close> gives \<open>["12", "13", "14"]\<close>.
\<close>

theorem parse_apartments_spec:
  "parse_apartments text = normalize_by py_isdigit text
   \<and> distinct (parse_apartments text)
   \<and> parse_apartments [49, 50, 44, 32, 49, 50, 32, 49, 51, 10, 49, 52, 97]
       = [[49, 50], [49, 51], [49, 52]]"
proof -
  have "distinct (parse_apartments text)" by (rule distinct_apartments)
  moreover have "parse_apartments [49, 50, 44, 32, 49, 50, 32, 49, 51, 10, 49, 52, 97]
       = [[49, 50], [49, 51], [49, 52]]"
    by (simp add: eval_parse)
  ultimately show ?thesis using parse_apartments_normalize by simp
qed

text \<open>
  Claim C9, as stated, at the input \<open>"\<twosuperior>"\<close> (U+00B2): the identifier returned consists
  of a character that is a digit for \<open>str.isdigit\<close> and not a decimal digit.
\<close>

theorem parse_apartments_not_decimal:
  "parse_apartments [178] = [[178]] \<and> \<not> py_isdecimal 178"
proof -
  have "\<not> py_isdecimal 178"
    by (simp add: py_isdecimal_def in_ranges_def decimal_ranges_def)
  moreover have "parse_apartments [178] = [[178]]"
    by (simp add: eval_parse)
  ultimately show ?thesis by simp
qed

text \<open>
  Claim C9, amended. Every identifier returned by \<open>parse_apartments\<close> is non-empty and
  consists only of characters of \<open>str.isdigit\<close>. The identifiers returned are exactly the
  non-empty digit contents of the tokens of the text, each once: tokens whose digit
  contents coincide give one entry, as \<open>"12 1a2"\<close> gives \<open>["12"]\<close>.
\<close>

theorem parse_apartments_digits:
  "(\<forall>n \<in> set (parse_apartments text). n \<noteq> [] \<and> (\<forall>c \<in> set n. py_isdigit c))
   \<and> set (parse_apartments text) = filter py_isdigit ` set (split_on is_sep text) - {[]}
   \<and> distinct (parse_apartments text)
   \<and> parse_apartments [49, 50, 32, 49, 97, 50] = [[49, 50]]"
proof -
  have b: "\<forall>n \<in> set (parse_apartments text). n \<noteq> [] \<and> (\<forall>c \<in> set n. py_isdigit c)"
    using apartment_is_digits by blast
  have e: "parse_apartments [49, 50, 32, 49, 97, 50] = [[49, 50]]"
    by (simp add: eval_parse)
  from b parse_apartments_set distinct_apartments e show ?thesis by (intro conjI)
qed

theorem parse_apartments_digits_witness:
  "[49, 50] \<in> set (parse_apartments [49, 50, 32, 49, 97, 50])
   \<and> [49, 50] \<noteq> ([] :: pystr) \<and> py_isdigit 49 \<and> py_isdigit 50"
proof -
  note t = parse_apartments_digits[of "[49, 50, 32, 49, 97, 50]"]
  have e: "parse_apartments [49, 50, 32, 49, 97, 50] = [[49, 50]]"
    using t by (elim conjE)
  then have m: "[49, 50] \<in> set (parse_apartments [49, 50, 32, 49, 97, 50])" by simp
  from t have "\<forall>n \<in> set (parse_apartments [49, 50, 32, 49, 97, 50]).
      n \<noteq> [] \<and> (\<forall>c \<in> set n. py_isdigit c)" by (elim conjE)
  with m have "[49, 50] \<noteq> ([] :: pystr) \<and> (\<forall>c \<in> set [49, 50]. py_isdigit c)"
    by (rule bspec[rotated])
  with m show ?thesis by simp
qed

subsection \<open>The calendar\<close>




















subsection \<open>The random timestamp sampler\<close>


lemma randint_onto:
  assumes "a \<le> r" and "r \<le> b"
  shows "fst (randint a b (\<lambda>i. nat (r - a))) = Inr r"
  using assms by (simp add: randint_def)












subsection \<open>Replacement and rendering\<close>

lemma py_replace_absent:
  assumes "old \<noteq> []" and "\<not> sublist old s"
  shows "py_replace old new s = s"
  using assms(2)
proof (induction s)
  case Nil
  then show ?case using assms(1) by simp
next
  case (Cons c cs)
  then have "\<not> prefix old (c # cs)" and "\<not> sublist old cs"
    by (auto simp: sublist_Cons_right)
  then show ?case using assms(1) Cons.IH by simp
qed

lemma py_replace_whole:
  assumes "old \<noteq> []"
  shows "py_replace old new old = new"
proof -
  obtain c cs where "old = c # cs" using assms by (cases old) auto
  then show ?thesis by simp
qed

lemma prefix_py_replace:
  assumes "old \<noteq> []" and "new \<noteq> []" and "hd new \<notin> set p"
    and "prefix p (py_replace old new s)"
  shows "prefix p s"
  using assms(3,4)
proof (induction s arbitrary: p)
  case Nil
  then show ?case using assms(1) by simp
next
  case (Cons c cs)
  show ?case
  proof (cases p)
    case Nil
    then show ?thesis by simp
  next
    case (Cons x xs)
    show ?thesis
    proof (cases "prefix old (c # cs)")
      case True
      then have "prefix p (new @ py_replace old new (drop (length old) (c # cs)))"
        using Cons.prems(2) assms(1) by simp
      then have "x = hd new" using \<open>p = x # xs\<close> assms(2) by (cases new) auto
      then show ?thesis using Cons.prems(1) \<open>p = x # xs\<close> by simp
    next
      case False
      then have "prefix (x # xs) (c # py_replace old new cs)"
        using Cons.prems(2) assms(1) \<open>p = x # xs\<close> by simp
      then have "x = c" and "prefix xs (py_replace old new cs)" by simp_all
      moreover have "hd new \<notin> set xs" using Cons.prems(1) \<open>p = x # xs\<close> by simp
      ultimately show ?thesis using Cons.IH[of xs] \<open>p = x # xs\<close> by simp
    qed
  qed
qed

lemma no_start_in_append:
  assumes "no_start_in p new" and "sublist p (new @ r)"
  shows "sublist p r"
  using assms
proof (induction new)
  case Nil
  then show ?case by simp
next
  case (Cons c cs)
  have "\<not> prefix p ((c # cs) @ r)"
  proof
    assume "prefix p ((c # cs) @ r)"
    then have "prefix p (c # cs) \<or> (\<exists>us. p = (c # cs) @ us \<and> prefix us r)"
      by (simp only: prefix_append)
    then have "prefix p (c # cs) \<or> prefix (c # cs) p"
      by (elim disjE exE conjE) (simp_all only: prefix_def, blast+)
    then show False using Cons.prems(1) by simp
  qed
  then have "sublist p (cs @ r)" using Cons.prems(2) by (simp add: sublist_Cons_right)
  then show ?case using Cons.IH Cons.prems(1) by simp
qed

lemma py_replace_keeps_absent:
  assumes "old \<noteq> []" and "new \<noteq> []" and "hd new \<notin> set p" and "no_start_in p new"
    and "\<not> sublist p s"
  shows "\<not> sublist p (py_replace old new s)"
  using assms(5)
proof (induction "length s" arbitrary: s rule: less_induct)
  case less
  show ?case
  proof (cases s)
    case Nil
    then show ?thesis using less.prems assms(1) by simp
  next
    case (Cons c cs)
    show ?thesis
    proof (cases "prefix old (c # cs)")
      case True
      let ?rest = "drop (length old) (c # cs)"
      have "length ?rest < length s" using assms(1) Cons by simp
      moreover have "\<not> sublist p ?rest"
        using less.prems Cons sublist_drop sublist_order.order_trans by blast
      ultimately have "\<not> sublist p (py_replace old new ?rest)" by (rule less.hyps)
      then have "\<not> sublist p (new @ py_replace old new ?rest)"
        using no_start_in_append[OF assms(4)] by blast
      then show ?thesis using True Cons assms(1) by simp
    next
      case False
      have "\<not> sublist p cs" using less.prems Cons by (simp add: sublist_Cons_right)
      then have a: "\<not> sublist p (py_replace old new cs)"
        using less.hyps[of cs] Cons by simp
      have "\<not> prefix p (c # py_replace old new cs)"
      proof
        assume "prefix p (c # py_replace old new cs)"
        then have "prefix p (py_replace old new (c # cs))" using False assms(1) by simp
        then have "prefix p (c # cs)" using assms(1,2,3) by (rule prefix_py_replace[rotated 3])
        then show False using less.prems Cons by simp
      qed
      then show ?thesis using a False Cons assms(1) by (simp add: sublist_Cons_right)
    qed
  qed
qed

lemma not_sublist_if_char:
  assumes "c \<in> set p" and "c \<notin> set s"
  shows "\<not> sublist p s"
  using assms set_mono_sublist by fastforce

lemma decimal_digits:
  "n < 10 \<Longrightarrow> decimal n = [48 + n]"
  "10 \<le> n \<Longrightarrow> n < 100 \<Longrightarrow> decimal n = [48 + n div 10, 48 + n mod 10]"
  "100 \<le> n \<Longrightarrow> n < 1000 \<Longrightarrow> decimal n = [48 + n div 100, 48 + n div 10 mod 10, 48 + n mod 10]"
  "1000 \<le> n \<Longrightarrow> n < 10000 \<Longrightarrow>
     decimal n = [48 + n div 1000, 48 + n div 100 mod 10, 48 + n div 10 mod 10, 48 + n mod 10]"
proof -
  show 1: "\<And>n. n < 10 \<Longrightarrow> decimal n = [48 + n]"
    by (subst decimal.simps) simp
  show 2: "\<And>n. 10 \<le> n \<Longrightarrow> n < 100 \<Longrightarrow> decimal n = [48 + n div 10, 48 + n mod 10]"
  proof -
    fix n :: nat assume "10 \<le> n" "n < 100"
    then have "n div 10 < 10" by simp
    then show "decimal n = [48 + n div 10, 48 + n mod 10]"
      using \<open>10 \<le> n\<close> by (subst decimal.simps) (simp add: 1)
  qed
  show 3: "\<And>n. 100 \<le> n \<Longrightarrow> n < 1000 \<Longrightarrow>
      decimal n = [48 + n div 100, 48 + n div 10 mod 10, 48 + n mod 10]"
  proof -
    fix n :: nat assume "100 \<le> n" "n < 1000"
    then have "10 \<le> n div 10" "n div 10 < 100" by simp_all
    moreover have "n div 10 div 10 = n div 100" using div_mult2_eq[of n 10 10] by simp
    ultimately show "decimal n = [48 + n div 100, 48 + n div 10 mod 10, 48 + n mod 10]"
      using \<open>100 \<le> n\<close> by (subst decimal.simps) (simp add: 2)
  qed
  show "1000 \<le> n \<Longrightarrow> n < 10000 \<Longrightarrow>
     decimal n = [48 + n div 1000, 48 + n div 100 mod 10, 48 + n div 10 mod 10, 48 + n mod 10]"
  proof -
    assume "1000 \<le> n" "n < 10000"
    then have "100 \<le> n div 10" "n div 10 < 1000" by simp_all
    moreover have "n div 10 div 100 = n div 1000" "n div 10 div 10 = n div 100"
      using div_mult2_eq[of n 10 100] div_mult2_eq[of n 10 10] by simp_all
    ultimately show ?thesis
      using \<open>1000 \<le> n\<close> by (subst decimal.simps) (simp add: 3)
  qed
qed

lemma replicate_small:
  "replicate 1 x = [x]" "replicate 2 x = [x, x]" "replicate 3 x = [x, x, x]"
  by (simp_all add: numeral_2_eq_2 numeral_3_eq_3)

lemma zero_padded_two:
  assumes "0 \<le> n" and "n < 100"
  shows "zero_padded 2 n = two_digits n"
proof (cases "nat n < 10")
  case True
  then show ?thesis by (simp add: zero_padded_def two_digits_def decimal_digits(1) replicate_small)
next
  case False
  then have "10 \<le> nat n" "nat n < 100" using assms by simp_all
  then show ?thesis by (simp add: zero_padded_def two_digits_def decimal_digits(2))
qed

lemma zero_padded_four:
  assumes "0 \<le> n" and "n < 10000"
  shows "zero_padded 4 n = four_digits n"
proof -
  consider "nat n < 10" | "10 \<le> nat n" "nat n < 100" | "100 \<le> nat n" "nat n < 1000"
    | "1000 \<le> nat n" "nat n < 10000"
    using assms by linarith
  then show ?thesis
  proof cases
    case 1
    then show ?thesis
      by (simp add: zero_padded_def four_digits_def decimal_digits(1) replicate_small)
  next
    case 2
    then show ?thesis
      by (simp add: zero_padded_def four_digits_def decimal_digits(2) replicate_small)
  next
    case 3
    then show ?thesis
      by (simp add: zero_padded_def four_digits_def decimal_digits(3) replicate_small)
  next
    case 4
    then show ?thesis
      by (simp add: zero_padded_def four_digits_def decimal_digits(4))
  qed
qed

lemma days_in_month_le: "days_in_month y m \<le> 31"
  by (simp add: days_in_month_def)

lemma strftime_date:
  assumes "valid_date (date_part dt)"
  shows "strftime date_format dt = dd_mm_yyyy dt"
proof -
  let ?d = "date_part dt"
  have "day ?d \<le> 31" using assms days_in_month_le[of "year ?d" "month ?d"]
    by (simp add: valid_date_def)
  then have "zero_padded 2 (day ?d) = two_digits (day ?d)"
    "zero_padded 2 (month ?d) = two_digits (month ?d)"
    "zero_padded 4 (year ?d) = four_digits (year ?d)"
    using assms by (simp_all add: valid_date_def zero_padded_two zero_padded_four)
  then show ?thesis
    by (simp add: date_format_def dd_mm_yyyy_def directive_def)
qed

lemma strftime_time:
  assumes "valid_time (time_part dt)"
  shows "strftime time_format dt = hh_mm dt"
proof -
  have "zero_padded 2 (hour (time_part dt)) = two_digits (hour (time_part dt))"
    "zero_padded 2 (minute (time_part dt)) = two_digits (minute (time_part dt))"
    using assms by (simp_all add: valid_time_def zero_padded_two)
  then show ?thesis
    by (simp add: time_format_def hh_mm_def directive_def)
qed

lemmas literal_defs = name_upper_def name_mixed_def name_lower_def name_canonical_def
  address_old_def address_new_def flat_example_def flat_phrase_def ph_flat_def ph_date_def
  ph_time_def

lemma literals_nonempty:
  "name_upper \<noteq> []" "name_mixed \<noteq> []" "name_lower \<noteq> []" "name_canonical \<noteq> []"
  "address_old \<noteq> []" "address_new \<noteq> []" "flat_example \<noteq> []" "ph_flat \<noteq> []"
  "ph_date \<noteq> []" "ph_time \<noteq> []"
  by (simp_all add: literal_defs)

text \<open>No replacement text of the renderer can complete an occurrence of the example
  phrase or of a placeholder.\<close>

lemma fresh_name_canonical:
  "hd name_canonical \<notin> set flat_example" "no_start_in flat_example name_canonical"
  "hd name_canonical \<notin> set ph_flat" "no_start_in ph_flat name_canonical"
  "hd name_canonical \<notin> set ph_date" "no_start_in ph_date name_canonical"
  "hd name_canonical \<notin> set ph_time" "no_start_in ph_time name_canonical"
  by (simp_all add: literal_defs)

lemma fresh_address_new:
  "hd address_new \<notin> set flat_example" "no_start_in flat_example address_new"
  "hd address_new \<notin> set ph_flat" "no_start_in ph_flat address_new"
  "hd address_new \<notin> set ph_date" "no_start_in ph_date address_new"
  "hd address_new \<notin> set ph_time" "no_start_in ph_time address_new"
  by (simp_all add: literal_defs)

lemma legacy_keeps_absent:
  assumes "hd name_canonical \<notin> set p" and "no_start_in p name_canonical"
    and "hd address_new \<notin> set p" and "no_start_in p address_new"
    and "\<not> sublist p t"
  shows "\<not> sublist p (legacy t)"
proof -
  note k = py_replace_keeps_absent[OF _ literals_nonempty(4) assms(1,2)]
  have 1: "\<not> sublist p (py_replace name_upper name_canonical t)"
    using literals_nonempty(1) assms(5) by (rule k)
  have 2: "\<not> sublist p (py_replace name_mixed name_canonical
     (py_replace name_upper name_canonical t))"
    using literals_nonempty(2) 1 by (rule k)
  have 3: "\<not> sublist p (py_replace name_lower name_canonical (py_replace name_mixed name_canonical
     (py_replace name_upper name_canonical t)))"
    using literals_nonempty(3) 2 by (rule k)
  show ?thesis
    unfolding legacy_def
    using literals_nonempty(5,6) assms(3,4) 3 by (rule py_replace_keeps_absent)
qed

lemma render_legacy:
  "render t apt dt =
     py_replace ph_time (strftime time_format dt) (py_replace ph_date (strftime date_format dt)
       (py_replace ph_flat apt (py_replace flat_example (flat_phrase @ apt) (legacy t))))"
  by (simp add: render_def legacy_def Let_def)

lemma render_without_placeholders:
  assumes "\<not> sublist ph_flat t" and "\<not> sublist ph_date t" and "\<not> sublist ph_time t"
    and "\<not> sublist flat_example t"
  shows "render t apt dt = legacy t"
proof -
  have a: "\<not> sublist flat_example (legacy t)" "\<not> sublist ph_flat (legacy t)"
    "\<not> sublist ph_date (legacy t)" "\<not> sublist ph_time (legacy t)"
    using assms fresh_name_canonical fresh_address_new by (simp_all add: legacy_keeps_absent)
  show ?thesis
    unfolding render_legacy
    by (simp add: py_replace_absent[OF literals_nonempty(7) a(1)]
          py_replace_absent[OF literals_nonempty(8) a(2)]
          py_replace_absent[OF literals_nonempty(9) a(3)]
          py_replace_absent[OF literals_nonempty(10) a(4)])
qed

lemma legacy_identity:
  assumes "\<not> sublist name_upper t" and "\<not> sublist name_mixed t" and "\<not> sublist name_lower t"
    and "\<not> sublist address_old t"
  shows "legacy t = t"
  unfolding legacy_def
  by (simp add: py_replace_absent[OF literals_nonempty(1) assms(1)]
        py_replace_absent[OF literals_nonempty(2) assms(2)]
        py_replace_absent[OF literals_nonempty(3) assms(3)]
        py_replace_absent[OF literals_nonempty(5) assms(4)])

lemma absent_in_flat_example:
  "\<not> sublist name_upper flat_example" "\<not> sublist name_mixed flat_example"
  "\<not> sublist name_lower flat_example" "\<not> sublist address_old flat_example"
proof -
  show "\<not> sublist name_upper flat_example"
    by (rule not_sublist_if_char[of 1057]) (simp_all add: literal_defs)
  show "\<not> sublist name_mixed flat_example"
    by (rule not_sublist_if_char[of 1078]) (simp_all add: literal_defs)
  show "\<not> sublist name_lower flat_example"
    by (rule not_sublist_if_char[of 1078]) (simp_all add: literal_defs)
  show "\<not> sublist address_old flat_example"
    by (rule not_sublist_if_char[of 1091]) (simp_all add: literal_defs)
qed

lemma render_flat_example:
  assumes "\<forall>c \<in> set apt. py_isdigit c"
  shows "render flat_example apt dt = flat_phrase @ apt"
proof -
  have "\<not> py_isdigit 123" using isdigit_bounds(2)[of 123] by auto
  then have "123 \<notin> set apt" using assms by blast
  moreover have "123 \<notin> set flat_phrase" by (simp add: literal_defs)
  ultimately have n: "123 \<notin> set (flat_phrase @ apt)" by simp
  have a: "\<not> sublist ph_flat (flat_phrase @ apt)" "\<not> sublist ph_date (flat_phrase @ apt)"
    "\<not> sublist ph_time (flat_phrase @ apt)"
    by (rule not_sublist_if_char[OF _ n], simp add: literal_defs)+
  have "legacy flat_example = flat_example"
    using absent_in_flat_example by (rule legacy_identity)
  then show ?thesis
    unfolding render_legacy
    by (simp add: py_replace_whole[OF literals_nonempty(7)]
          py_replace_absent[OF literals_nonempty(8) a(1)]
          py_replace_absent[OF literals_nonempty(9) a(2)]
          py_replace_absent[OF literals_nonempty(10) a(3)])
qed

text \<open>
  Claim C3. For every template, apartment identifier and valid date and time, the text
  rendered by the loop of \<open>on_generate\<close> is the template after the replacements of this
  list, applied one after the other in this order: the three spellings of the name of
  the estate by its canonical name, the street address by the new one, the phrase with
  the example number 19 by the same phrase with the identifier of the apartment; then
  \<open>{{flat}}\<close> by the identifier, \<open>{{date}}\<close> by the date as \<open>DD.MM.YYYY\<close> and \<open>{{time}}\<close>
  by the time as \<open>HH:MM\<close>, both padded with zeros. The example phrase is replaced without
  any placeholder: a template that is this phrase renders as the phrase with the
  (digits-only) identifier.
\<close>

theorem render_in_order:
  assumes "valid_date (date_part dt)" and "valid_time (time_part dt)"
  shows "render template_text apt dt
         = apply_replacements (fixed_replacements apt @ placeholder_replacements apt dt)
             template_text
     \<and> fixed_replacements apt @ placeholder_replacements apt dt
         = [(name_upper, name_canonical), (name_mixed, name_canonical),
            (name_lower, name_canonical), (address_old, address_new),
            (flat_example, flat_phrase @ apt), (ph_flat, apt),
            (ph_date, two_digits (day (date_part dt)) @ [46] @ two_digits (month (date_part dt))
                        @ [46] @ four_digits (year (date_part dt))),
            (ph_time, two_digits (hour (time_part dt)) @ [58] @ two_digits (minute (time_part dt)))]
     \<and> ((\<forall>c \<in> set apt. py_isdigit c) \<longrightarrow> render flat_example apt dt = flat_phrase @ apt)"
proof -
  have "render template_text apt dt
         = apply_replacements (fixed_replacements apt @ placeholder_replacements apt dt)
             template_text"
    by (simp add: render_def Let_def apply_replacements_def fixed_replacements_def
          placeholder_replacements_def strftime_date[OF assms(1)] strftime_time[OF assms(2)])
  moreover have "fixed_replacements apt @ placeholder_replacements apt dt
         = [(name_upper, name_canonical), (name_mixed, name_canonical),
            (name_lower, name_canonical), (address_old, address_new),
            (flat_example, flat_phrase @ apt), (ph_flat, apt),
            (ph_date, two_digits (day (date_part dt)) @ [46] @ two_digits (month (date_part dt))
                        @ [46] @ four_digits (year (date_part dt))),
            (ph_time, two_digits (hour (time_part dt)) @ [58] @ two_digits (minute (time_part dt)))]"
    by (simp add: fixed_replacements_def placeholder_replacements_def dd_mm_yyyy_def hh_mm_def)
  ultimately show ?thesis using render_flat_example by blast
qed

theorem render_in_order_witness:
  "valid_date \<lparr>year = 2024, month = 3, day = 5\<rparr>
   \<and> valid_time \<lparr>hour = 8, minute = 7, second = 0\<rparr>
   \<and> py_isdigit 53
   \<and> render flat_example [53]
        \<lparr>date_part = \<lparr>year = 2024, month = 3, day = 5\<rparr>,
         time_part = \<lparr>hour = 8, minute = 7, second = 0\<rparr>\<rparr> = flat_phrase @ [53]
   \<and> render (ph_flat @ [124] @ ph_date @ [124] @ ph_time) [53]
        \<lparr>date_part = \<lparr>year = 2024, month = 3, day = 5\<rparr>,
         time_part = \<lparr>hour = 8, minute = 7, second = 0\<rparr>\<rparr>
       = [53, 124, 48, 53, 46, 48, 51, 46, 50, 48, 50, 52, 124, 48, 56, 58, 48, 55]"
proof -
  let ?dt = "\<lparr>date_part = \<lparr>year = 2024, month = 3, day = 5\<rparr>,
         time_part = \<lparr>hour = 8, minute = 7, second = 0\<rparr>\<rparr>"
  have v: "valid_date (date_part ?dt)" "valid_time (time_part ?dt)"
    by (simp_all add: valid_date_def valid_time_def days_in_month_def)
  have d: "py_isdigit 53" by (simp add: py_isdigit_def in_ranges_def digit_ranges_def)
  note t = render_in_order[OF v]
  have "(\<forall>c \<in> set [53]. py_isdigit c) \<longrightarrow> render flat_example [53] ?dt = flat_phrase @ [53]"
    using t[of flat_example "[53]"] by (elim conjE)
  then have 1: "render flat_example [53] ?dt = flat_phrase @ [53]"
    using d by simp
  have "render (ph_flat @ [124] @ ph_date @ [124] @ ph_time) [53] ?dt
        = apply_replacements (fixed_replacements [53] @ placeholder_replacements [53] ?dt)
            (ph_flat @ [124] @ ph_date @ [124] @ ph_time)"
    using t[of "ph_flat @ [124] @ ph_date @ [124] @ ph_time" "[53]"] by (elim conjE)
  also have "\<dots> = [53, 124, 48, 53, 46, 48, 51, 46, 50, 48, 50, 52, 124, 48, 56, 58, 48, 55]"
    by (simp add: apply_replacements_def fixed_replacements_def placeholder_replacements_def
          dd_mm_yyyy_def hh_mm_def two_digits_def four_digits_def literal_defs)
  finally show ?thesis using v d 1 by simp
qed

text \<open>
  Claim C7. A template in which none of \<open>{{flat}}\<close>, \<open>{{date}}\<close>, \<open>{{time}}\<close> and the phrase
  with the example apartment number occurs is rendered, for every apartment and date, as
  the template after the fixed replacements alone (the three spellings of the name and
  the address; the replacement of the example phrase finds nothing): none of them can
  produce a placeholder or the phrase. Rendering is a total function, so nothing is
  raised, and when no fixed phrase occurs either, the template is returned as it is, with
  any unknown or malformed placeholder in it.
\<close>

theorem render_passthrough:
  assumes "\<not> sublist ph_flat t" and "\<not> sublist ph_date t" and "\<not> sublist ph_time t"
    and "\<not> sublist flat_example t"
  shows "render t apt dt
         = apply_replacements [(name_upper, name_canonical), (name_mixed, name_canonical),
             (name_lower, name_canonical), (address_old, address_new)] t
     \<and> (\<not> sublist name_upper t \<and> \<not> sublist name_mixed t \<and> \<not> sublist name_lower t
          \<and> \<not> sublist address_old t \<longrightarrow> render t apt dt = t)"
proof -
  have r: "render t apt dt = legacy t" using assms by (rule render_without_placeholders)
  have "legacy t = apply_replacements [(name_upper, name_canonical), (name_mixed, name_canonical),
             (name_lower, name_canonical), (address_old, address_new)] t"
    by (simp add: legacy_def apply_replacements_def)
  then show ?thesis using r legacy_identity[of t] by simp
qed

theorem render_passthrough_witness:
  "\<not> sublist ph_flat [123, 123, 110, 97, 109, 101, 125, 125, 32, 123, 102, 108, 97, 116, 125]
   \<and> render [123, 123, 110, 97, 109, 101, 125, 125, 32, 123, 102, 108, 97, 116, 125] [53]
        \<lparr>date_part = \<lparr>year = 2024, month = 3, day = 5\<rparr>,
         time_part = \<lparr>hour = 8, minute = 7, second = 0\<rparr>\<rparr>
       = [123, 123, 110, 97, 109, 101, 125, 125, 32, 123, 102, 108, 97, 116, 125]"
proof -
  let ?t = "[123, 123, 110, 97, 109, 101, 125, 125, 32, 123, 102, 108, 97, 116, 125] :: pystr"
  have a: "\<not> sublist ph_flat ?t" "\<not> sublist ph_date ?t" "\<not> sublist ph_time ?t"
    by (simp_all add: literal_defs sublist_Cons_right)
  have b: "\<not> sublist flat_example ?t" "\<not> sublist name_upper ?t" "\<not> sublist name_mixed ?t"
    "\<not> sublist name_lower ?t" "\<not> sublist address_old ?t"
  proof -
    show "\<not> sublist flat_example ?t"
      by (rule not_sublist_if_char[of 1050]) (simp_all add: literal_defs)
    show "\<not> sublist name_upper ?t"
      by (rule not_sublist_if_char[of 1057]) (simp_all add: literal_defs)
    show "\<not> sublist name_mixed ?t"
      by (rule not_sublist_if_char[of 1078]) (simp_all add: literal_defs)
    show "\<not> sublist name_lower ?t"
      by (rule not_sublist_if_char[of 1078]) (simp_all add: literal_defs)
    show "\<not> sublist address_old ?t"
      by (rule not_sublist_if_char[of 1091]) (simp_all add: literal_defs)
  qed
  show ?thesis
    using render_passthrough[OF a b(1)] a(1) b(2-5) by blast
qed

subsection \<open>The loop over the apartments\<close>

lemma doc_filename_inj [simp]: "doc_filename a = doc_filename b \<longleftrightarrow> a = b"
  by (simp add: doc_filename_def)

lemma doc_path_inj [simp]:
  "folder @ [doc_filename a] = folder @ [doc_filename b] \<longleftrightarrow> a = b"
  by (simp add: doc_filename_def)



lemma generate_loop_stopped:
  assumes "distinct aps"
    and "generate_loop e tmpl df dt tf tt folder aps gen w = (Inl x, w')"
  shows "\<exists>k < length aps.
       (x = DocumentWriteFailure (doc_filename (aps ! k)) \<or> (\<exists>err. x = Crashed err))
     \<and> (\<forall>i < k. \<exists>d. files w' (folder @ [doc_filename (aps ! i)])
            = Some (Docx (py_splitlines (render tmpl (aps ! i) d))))
     \<and> (\<forall>p. p \<notin> (\<lambda>a. folder @ [doc_filename a]) ` set (take k aps) \<longrightarrow> files w' p = files w p)"
  using assms
proof (induction aps arbitrary: gen w)
  case Nil
  then show ?case by simp
next
  case (Cons a aps)
  obtain res g where rd: "random_datetime_between df dt tf tt (rng_state w) = (res, g)"
    by (cases "random_datetime_between df dt tf tt (rng_state w)")
  let ?path = "\<lambda>a. folder @ [doc_filename a]"
  let ?written = "\<lambda>b. \<exists>d. files w' (?path b) = Some (Docx (py_splitlines (render tmpl b d)))"
  show ?case
  proof (cases res)
    case (Inl err)
    then have "x = Crashed err" "files w' = files w" using Cons.prems(2) rd by auto
    then show ?thesis by (intro exI[of _ 0]) simp
  next
    case (Inr d)
    let ?w1 = "w\<lparr>rng_state := g\<rparr>"
    show ?thesis
    proof (cases "docx_fails e (?path a) (render tmpl a d)")
      case True
      then have "x = DocumentWriteFailure (doc_filename a)" "files w' = files w"
        using Cons.prems(2) rd Inr by (auto simp: Let_def make_docx_from_text_def)
      then show ?thesis by (intro exI[of _ 0]) simp
    next
      case False
      let ?w2 = "?w1\<lparr>files := (files ?w1)(?path a \<mapsto> Docx (py_splitlines (render tmpl a d)))\<rparr>"
      have run: "generate_loop e tmpl df dt tf tt folder aps (gen @ [?path a]) ?w2 = (Inl x, w')"
        using Cons.prems(2) rd Inr False by (simp add: Let_def make_docx_from_text_def)
      have da: "distinct aps" "a \<notin> set aps" using Cons.prems(1) by simp_all
      from Cons.IH[OF da(1) run] obtain k where k: "k < length aps"
        "x = DocumentWriteFailure (doc_filename (aps ! k)) \<or> (\<exists>err. x = Crashed err)"
        "\<forall>i < k. ?written (aps ! i)"
        "\<forall>p. p \<notin> ?path ` set (take k aps) \<longrightarrow> files w' p = files ?w2 p"
        by blast
      have "?path a \<notin> ?path ` set (take k aps)"
        using da(2) in_set_takeD[of a k aps] by auto
      then have "files w' (?path a) = files ?w2 (?path a)" using k(4) by blast
      then have wa: "?written a" by auto
      have w: "\<forall>i < Suc k. ?written ((a # aps) ! i)"
      proof (intro allI impI)
        fix i assume "i < Suc k"
        then show "?written ((a # aps) ! i)"
          using wa k(3) by (cases i) auto
      qed
      have f: "\<forall>p. p \<notin> ?path ` set (take (Suc k) (a # aps)) \<longrightarrow> files w' p = files w p"
      proof (intro allI impI)
        fix p assume "p \<notin> ?path ` set (take (Suc k) (a # aps))"
        then have "p \<noteq> ?path a" "p \<notin> ?path ` set (take k aps)" by auto
        then show "files w' p = files w p" using k(4) by simp
      qed
      show ?thesis
        using k(1,2) w f by (intro exI[of _ "Suc k"]) simp
    qed
  qed
qed




subsection \<open>A generation run\<close>

lemma mk_time_eq:
  "mk_time (hour t) (minute t)
   = (if time_ok t then Inr \<lparr>hour = hour t, minute = minute t, second = 0\<rparr> else Inl ValueError)"
  by (simp add: mk_time_def time_ok_def)

lemma on_generate_reaches_loop:
  assumes "reaches_loop e u"
  shows "on_generate e u w =
     (case loop_of e u w of
        (Inl stopped, w2) \<Rightarrow> (stopped, w2)
      | (Inr generated_files, w2) \<Rightarrow>
          (case write_zip e (zip_path_of e u) generated_files w2 of
             (Inl err, w3) \<Rightarrow> (Crashed err, w3)
           | (Inr _, w3) \<Rightarrow>
               (case append_history e
                       (history_entry e (length generated_files) (zip_path_of e u)) w3 of
                  Inl err \<Rightarrow> (Crashed err, w3)
                | Inr w4 \<Rightarrow> (Completed (length generated_files) (zip_path_of e u), w4))))"
  using assms
  by (simp add: on_generate_def reaches_loop_def mk_time_eq Let_def split: prod.split sum.split)

lemma on_generate_trace:
  obtains (empty_template) "template_of u = []" "on_generate e u w = (EmptyTemplate, w)"
  | (empty_apartments) "template_of u \<noteq> []" "apartments_of u = []"
      "on_generate e u w = (EmptyApartmentList, w)"
  | (crashed_early) err where "template_of u \<noteq> []" "apartments_of u \<noteq> []" "\<not> reaches_loop e u"
      "on_generate e u w = (Crashed err, w)"
  | (stopped) x w2 where "reaches_loop e u" "loop_of e u w = (Inl x, w2)"
      "on_generate e u w = (x, w2)"
  | (zip_failed) gs w2 err w3 where "reaches_loop e u" "loop_of e u w = (Inr gs, w2)"
      "write_zip e (zip_path_of e u) gs w2 = (Inl err, w3)"
      "on_generate e u w = (Crashed err, w3)"
  | (history_failed) gs w2 w3 err where "reaches_loop e u" "loop_of e u w = (Inr gs, w2)"
      "write_zip e (zip_path_of e u) gs w2 = (Inr (), w3)"
      "append_history e (history_entry e (length gs) (zip_path_of e u)) w3 = Inl err"
      "on_generate e u w = (Crashed err, w3)"
  | (completed) gs w2 w3 w4 where "reaches_loop e u" "loop_of e u w = (Inr gs, w2)"
      "write_zip e (zip_path_of e u) gs w2 = (Inr (), w3)"
      "append_history e (history_entry e (length gs) (zip_path_of e u)) w3 = Inr w4"
      "on_generate e u w = (Completed (length gs) (zip_path_of e u), w4)"
proof (cases "reaches_loop e u")
  case False
  show ?thesis
  proof (cases "template_of u = []")
    case True
    then have "on_generate e u w = (EmptyTemplate, w)" by (simp add: on_generate_def)
    with True show ?thesis by (rule empty_template)
  next
    case nt: False
    show ?thesis
    proof (cases "apartments_of u = []")
      case True
      then have "on_generate e u w = (EmptyApartmentList, w)"
        using nt by (simp add: on_generate_def)
      with nt True show ?thesis by (rule empty_apartments)
    next
      case na: False
      have "\<exists>err. on_generate e u w = (Crashed err, w)"
        using nt na False
        by (auto simp: on_generate_def reaches_loop_def mk_time_eq Let_def)
      then show ?thesis using nt na False crashed_early by blast
    qed
  qed
next
  case True
  note run = on_generate_reaches_loop[OF True, of w]
  obtain r w2 where l: "loop_of e u w = (r, w2)" by (cases "loop_of e u w")
  show ?thesis
  proof (cases r)
    case (Inl x)
    then show ?thesis using True l run stopped by simp
  next
    case (Inr gs)
    obtain rz w3 where z: "write_zip e (zip_path_of e u) gs w2 = (rz, w3)"
      by (cases "write_zip e (zip_path_of e u) gs w2")
    show ?thesis
    proof (cases rz)
      case (Inl err)
      then show ?thesis using True l Inr z run zip_failed by simp
    next
      case zr: (Inr x)
      then have z': "write_zip e (zip_path_of e u) gs w2 = (Inr (), w3)" using z by simp
      show ?thesis
      proof (cases "append_history e (history_entry e (length gs) (zip_path_of e u)) w3")
        case (Inl err)
        then show ?thesis using True l Inr z' run history_failed by simp
      next
        case (Inr w4)
        then show ?thesis using True l \<open>r = Inr gs\<close> z' run completed by simp
      qed
    qed
  qed
qed










lemma loop_of_stopped:
  assumes "loop_of e u w = (Inl x, w2)"
  shows "\<exists>k < length (apartments_of u).
       (x = DocumentWriteFailure (doc_filename (apartments_of u ! k)) \<or> (\<exists>err. x = Crashed err))
     \<and> (\<forall>i < k. \<exists>d. files w2 (doc_path e (apartments_of u ! i))
            = Some (Docx (py_splitlines (render (template_of u) (apartments_of u ! i) d))))
     \<and> (\<forall>p. p \<notin> doc_path e ` set (take k (apartments_of u)) \<longrightarrow> files w2 p = files w p)"
  using generate_loop_stopped[OF distinct_apartments assms] by simp





subsection \<open>The claims about a run\<close>


lemma example_template: "template_of example_ui \<noteq> []"
proof -
  have "\<not> py_isspace 123" "\<not> py_isspace 125"
    by (simp_all add: py_isspace_def in_ranges_def space_ranges_def)
  then show ?thesis
    by (simp add: example_ui_def py_strip_def ph_flat_def ph_time_def)
qed



text \<open>
  Claim C6. When the template is blank after trimming, the run ends with the warning for
  an empty template, and when the template is not blank and no apartment identifier is
  found, with the warning for an empty list; in both cases the world is returned as it
  was: no folder, no document, no archive, no history entry, no random draw. (The
  template is checked first, so a run with both empty ends with the first warning.) No
  other run ends with either warning.
\<close>

theorem on_generate_rejects_empty:
  "(template_of u = [] \<longrightarrow> on_generate e u w = (EmptyTemplate, w))
   \<and> (template_of u \<noteq> [] \<and> apartments_of u = [] \<longrightarrow> on_generate e u w = (EmptyApartmentList, w))
   \<and> (fst (on_generate e u w) = EmptyTemplate \<longrightarrow> template_of u = [])
   \<and> (fst (on_generate e u w) = EmptyApartmentList \<longrightarrow>
        template_of u \<noteq> [] \<and> apartments_of u = [])"
proof (cases rule: on_generate_trace[of u e w])
  case (stopped x w2)
  then show ?thesis
    using loop_of_stopped[OF stopped(2)] by (auto simp: reaches_loop_def)
qed (auto simp: reaches_loop_def)

theorem on_generate_rejects_empty_witness:
  "template_of (example_ui\<lparr>template_edit := [32, 10]\<rparr>) = []
   \<and> on_generate example_env (example_ui\<lparr>template_edit := [32, 10]\<rparr>) example_world
       = (EmptyTemplate, example_world)
   \<and> template_of (example_ui\<lparr>apts_edit := [97, 44]\<rparr>) \<noteq> []
   \<and> apartments_of (example_ui\<lparr>apts_edit := [97, 44]\<rparr>) = []
   \<and> on_generate example_env (example_ui\<lparr>apts_edit := [97, 44]\<rparr>) example_world
       = (EmptyApartmentList, example_world)"
proof -
  have s: "py_isspace 32" "py_isspace 10" "\<not> py_isspace 97"
    by (simp_all add: py_isspace_def in_ranges_def space_ranges_def)
  have d: "\<not> py_isdigit 97" "\<not> py_isdigit 32"
    by (simp_all add: py_isdigit_def in_ranges_def digit_ranges_def)
  have 1: "template_of (example_ui\<lparr>template_edit := [32, 10]\<rparr>) = []"
    by (simp add: py_strip_def s)
  have 2: "template_of (example_ui\<lparr>apts_edit := [97, 44]\<rparr>) \<noteq> []"
    using example_template by simp
  have 3: "apartments_of (example_ui\<lparr>apts_edit := [97, 44]\<rparr>) = []"
    by (simp add: parse_apartments_def py_split_def py_strip_def Let_def s d)
  show ?thesis
    using on_generate_rejects_empty[of "example_ui\<lparr>template_edit := [32, 10]\<rparr>" example_env
        example_world]
      on_generate_rejects_empty[of "example_ui\<lparr>apts_edit := [97, 44]\<rparr>" example_env
        example_world] 1 2 3
    by blast
qed







lemma history_entries_Holds [simp]: "history_entries (Holds (JList xs)) = xs"
  by (simp add: history_entries_def load_history_def)





end
